theory Spec2Isabelle
  imports Complex_Main
begin

section \<open>Numbers, vectors and scene objects\<close>

text \<open>
  The program is \<^verbatim>\<open>src/js/visualization.js\<close>, class \<^verbatim>\<open>VisualizationApp\<close>.
  JavaScript numbers are modelled as exact reals; array indices and lengths are naturals,
  converted with \<^term>\<open>real\<close> where the source mixes them into arithmetic.
  The layouts that only use \<^verbatim>\<open>%\<close>, \<^verbatim>\<open>Math.floor\<close>, products with small constants and a
  division by two (table, grid, tetrahedron) are computed without rounding by doubles
  for every index below \<open>2^53\<close>; for the sphere and the helix the reals idealise
  \<^verbatim>\<open>Math.acos\<close>, \<^verbatim>\<open>Math.sqrt\<close>, \<^verbatim>\<open>Math.cos\<close> and \<^verbatim>\<open>Math.sin\<close>. Where a property is
  about the rounding itself (the tolerance on the radius of the sphere), the body of the
  sphere loop is given a second time with every rounding written out.
\<close>

datatype Vector3 = Vector3 (vx: real) (vy: real) (vz: real)

text \<open>\<^verbatim>\<open>vector.multiplyScalar(s)\<close>\<close>

definition multiplyScalar :: "Vector3 \<Rightarrow> real \<Rightarrow> Vector3" where
  "multiplyScalar v s = Vector3 (vx v * s) (vy v * s) (vz v * s)"

text \<open>The Euclidean distance of a point from the origin, as a real number.\<close>

definition vector_length :: "Vector3 \<Rightarrow> real" where
  "vector_length v = sqrt ((vx v)\<^sup>2 + (vy v)\<^sup>2 + (vz v)\<^sup>2)"

text \<open>
  A \<^verbatim>\<open>THREE.Object3D\<close>, reduced to the two fields the program reads: the position and
  the rotation (Euler angles x, y, z). A new object sits at the origin, unrotated.
\<close>

record Object3D =
  position :: Vector3
  rotation :: Vector3

definition new_Object3D :: Object3D where
  "new_Object3D = \<lparr>position = Vector3 0 0 0, rotation = Vector3 0 0 0\<rparr>"

text \<open>
  \<^verbatim>\<open>object.lookAt(vector)\<close> belongs to three.js, not to this repository. It is taken as a
  parameter \<open>lookAt\<close> of every function that calls it: from the object's position and
  the point to look at it gives the object's new rotation.
\<close>

type_synonym look_at = "Vector3 \<Rightarrow> Vector3 \<Rightarrow> Vector3"

definition apply_lookAt :: "look_at \<Rightarrow> Vector3 \<Rightarrow> Object3D \<Rightarrow> Object3D" where
  "apply_lookAt lookAt vector object = object\<lparr>rotation := lookAt (position object) vector\<rparr>"


section \<open>Layout engine\<close>

text \<open>
  Each \<^verbatim>\<open>calculate...Layout(data)\<close> builds a local array with
  \<^verbatim>\<open>data.forEach((item, index) => { ...; array.push(object) })\<close> and stores it in
  \<^verbatim>\<open>this.targets\<close>. The loop is a map over the items paired with their indices
  (\<^const>\<open>enumerate\<close>); the body is the function \<open>..._object\<close>.
\<close>

subsection \<open>Table\<close>

definition table_object :: "nat \<Rightarrow> Object3D" where
  "table_object index =
     (let cols = (20::nat);
          rows = (10::nat);
          col = index mod cols;
          row = \<lfloor>real index / real cols\<rfloor>
      in new_Object3D\<lparr>position :=
           Vector3 (real col * 160 - (real cols * 160) / 2)
                   (- (real_of_int row * 180) + (real rows * 180) / 2)
                   0\<rparr>)"

definition table_targets :: "'a list \<Rightarrow> Object3D list" where
  "table_targets data = map (\<lambda>(index, item). table_object index) (enumerate 0 data)"

subsection \<open>Sphere\<close>

definition sphere_phi :: "nat \<Rightarrow> nat \<Rightarrow> real" where
  "sphere_phi n index = arccos (- 1 + (2 * real index) / real n)"

definition sphere_theta :: "nat \<Rightarrow> nat \<Rightarrow> real" where
  "sphere_theta n index = sqrt (real n * pi) * sphere_phi n index"

definition sphere_object :: "look_at \<Rightarrow> nat \<Rightarrow> nat \<Rightarrow> Object3D" where
  "sphere_object lookAt n index =
     (let radius = (900::real);
          phi = sphere_phi n index;
          theta = sphere_theta n index;
          object = new_Object3D\<lparr>position :=
            Vector3 (radius * cos theta * sin phi)
                    (radius * sin theta * sin phi)
                    (radius * cos phi)\<rparr>;
          vector = multiplyScalar (position object) 2
      in apply_lookAt lookAt vector object)"

definition sphere_targets :: "look_at \<Rightarrow> 'a list \<Rightarrow> Object3D list" where
  "sphere_targets lookAt data =
     map (\<lambda>(index, item). sphere_object lookAt (length data) index) (enumerate 0 data)"

subsection \<open>Sphere, with the rounding of doubles\<close>

text \<open>
  The arithmetic of the JavaScript engine: \<open>round_double\<close> takes the exact result of
  an operation on doubles to the double that is stored, \<open>Math_PI\<close> is the constant
  \<^verbatim>\<open>Math.PI\<close>, and the four functions are the engine's \<^verbatim>\<open>Math.acos\<close>, \<^verbatim>\<open>Math.sqrt\<close>,
  \<^verbatim>\<open>Math.cos\<close> and \<^verbatim>\<open>Math.sin\<close>. They belong to the engine, not to this repository, and
  are parameters.
\<close>

record js_math =
  round_double :: "real \<Rightarrow> real"
  Math_PI :: real
  Math_acos :: "real \<Rightarrow> real"
  Math_sqrt :: "real \<Rightarrow> real"
  Math_cos :: "real \<Rightarrow> real"
  Math_sin :: "real \<Rightarrow> real"

text \<open>
  What is asked of the engine. The first two lines hold of IEEE 754 binary64 with
  rounding to nearest: below the overflow threshold the stored value is off by at most
  half a unit in the last place, or by half the smallest subnormal; and doubling a
  double is exact. The last two lines ask \<^verbatim>\<open>Math.cos\<close> and \<^verbatim>\<open>Math.sin\<close> to be within
  \<open>10\<^sup>-\<^sup>8\<close> of the cosine and the sine; the language standard leaves their accuracy to
  the engine, and the engines in use are within about \<open>10\<^sup>-\<^sup>1\<^sup>6\<close>. Nothing is asked of
  \<^verbatim>\<open>Math.acos\<close>, \<^verbatim>\<open>Math.sqrt\<close> and \<^verbatim>\<open>Math.PI\<close>.
\<close>

definition ieee_double :: "js_math \<Rightarrow> bool" where
  "ieee_double m \<longleftrightarrow>
     (\<forall>x. \<bar>x\<bar> \<le> 2 ^ 1023 \<longrightarrow> \<bar>round_double m x - x\<bar> \<le> \<bar>x\<bar> / 2 ^ 53 + 1 / 2 ^ 1075)
   \<and> (\<forall>x. \<bar>x\<bar> \<le> 2 ^ 1022 \<longrightarrow> round_double m (round_double m x * 2) = round_double m x * 2)
   \<and> (\<forall>x. \<bar>Math_cos m x - cos x\<bar> \<le> 1 / 10 ^ 8)
   \<and> (\<forall>x. \<bar>Math_sin m x - sin x\<bar> \<le> 1 / 10 ^ 8)"

text \<open>
  The body of the sphere loop again, one \<open>round_double\<close> for every arithmetic
  operation, in the order JavaScript evaluates them (\<^verbatim>\<open>a * b * c\<close> is \<^verbatim>\<open>(a * b) * c\<close>).
\<close>

definition sphere_phi_double :: "js_math \<Rightarrow> nat \<Rightarrow> nat \<Rightarrow> real" where
  "sphere_phi_double m n index =
     Math_acos m (round_double m (- 1 + round_double m (round_double m (2 * real index) / real n)))"

definition sphere_theta_double :: "js_math \<Rightarrow> nat \<Rightarrow> nat \<Rightarrow> real" where
  "sphere_theta_double m n index =
     round_double m (Math_sqrt m (round_double m (real n * Math_PI m)) * sphere_phi_double m n index)"

definition multiplyScalar_double :: "js_math \<Rightarrow> Vector3 \<Rightarrow> real \<Rightarrow> Vector3" where
  "multiplyScalar_double m v s =
     Vector3 (round_double m (vx v * s)) (round_double m (vy v * s)) (round_double m (vz v * s))"

definition sphere_object_double :: "js_math \<Rightarrow> look_at \<Rightarrow> nat \<Rightarrow> nat \<Rightarrow> Object3D" where
  "sphere_object_double m lookAt n index =
     (let radius = (900::real);
          phi = sphere_phi_double m n index;
          theta = sphere_theta_double m n index;
          object = new_Object3D\<lparr>position :=
            Vector3 (round_double m (round_double m (radius * Math_cos m theta) * Math_sin m phi))
                    (round_double m (round_double m (radius * Math_sin m theta) * Math_sin m phi))
                    (round_double m (radius * Math_cos m phi))\<rparr>;
          vector = multiplyScalar_double m (position object) 2
      in apply_lookAt lookAt vector object)"

definition sphere_targets_double :: "js_math \<Rightarrow> look_at \<Rightarrow> 'a list \<Rightarrow> Object3D list" where
  "sphere_targets_double m lookAt data =
     map (\<lambda>(index, item). sphere_object_double m lookAt (length data) index) (enumerate 0 data)"

subsection \<open>Double helix\<close>

definition helix_object :: "look_at \<Rightarrow> nat \<Rightarrow> Object3D" where
  "helix_object lookAt index =
     (let radius = (700::real);
          verticalSpacing = (30::real);
          strand = index mod 2;
          strandIndex = \<lfloor>real index / 2\<rfloor>;
          phaseOffset = real strand * pi;
          theta = real_of_int strandIndex * 0.15 + phaseOffset;
          y = - (real_of_int strandIndex * verticalSpacing) + 1250;
          object = new_Object3D\<lparr>position :=
            Vector3 (radius * cos theta) y (radius * sin theta)\<rparr>;
          vector = Vector3 (vx (position object) * 2) (vy (position object))
                           (vz (position object) * 2)
      in apply_lookAt lookAt vector object)"

definition helix_targets :: "look_at \<Rightarrow> 'a list \<Rightarrow> Object3D list" where
  "helix_targets lookAt data = map (\<lambda>(index, item). helix_object lookAt index) (enumerate 0 data)"

subsection \<open>Grid\<close>

definition grid_object :: "nat \<Rightarrow> Object3D" where
  "grid_object index =
     (let cols = (10::nat);
          rows = (4::nat);
          depth = (5::nat);
          x = index mod cols;
          layer = \<lfloor>real index / real cols\<rfloor>;
          y = \<lfloor>real_of_int layer / real depth\<rfloor>;
          z = layer mod int depth
      in new_Object3D\<lparr>position :=
           Vector3 (real x * 200 - (real cols * 200) / 2)
                   (real_of_int y * 200 - (real rows * 200) / 2)
                   (real_of_int z * 200 - (real depth * 200) / 2)\<rparr>)"

definition grid_targets :: "'a list \<Rightarrow> Object3D list" where
  "grid_targets data = map (\<lambda>(index, item). grid_object index) (enumerate 0 data)"

subsection \<open>Tetrahedron\<close>

text \<open>
  The tetrahedron loop keeps three counters across iterations: \<open>(layer, row, col)\<close>,
  starting at \<open>(1, 0, 0)\<close>. \<open>tetra_advance\<close> is the two \<^verbatim>\<open>if\<close> statements at the top of
  the loop body, \<open>tetra_place\<close> the placement, and \<open>tetra_loop\<close> the loop, which keeps
  the counters each record was placed with beside the object it pushes.
  The \<^verbatim>\<open>lookAt\<close> call is commented out in the source, so the rotation stays the default.
\<close>

type_synonym counters = "nat \<times> nat \<times> nat"

fun tetra_advance :: "counters \<Rightarrow> counters" where
  "tetra_advance (layer, row, col) =
     (let (row1, col1) = (if col > row then (row + 1, 0) else (row, col))
      in if row1 \<ge> layer then (layer + 1, 0, 0) else (layer, row1, col1))"

fun tetra_place :: "counters \<Rightarrow> Object3D" where
  "tetra_place (layer, row, col) =
     (let spacing = (180::real);
          height = (160::real)
      in new_Object3D\<lparr>position :=
           Vector3 ((real col - real row / 2) * spacing)
                   (- (real layer * height) + 600)
                   ((real row - real layer / 2) * spacing)\<rparr>)"

fun tetra_loop :: "counters \<Rightarrow> 'a list \<Rightarrow> (counters \<times> Object3D) list" where
  "tetra_loop c [] = []"
| "tetra_loop c (item # rest) =
     (case tetra_advance c of (layer, row, col) \<Rightarrow>
        ((layer, row, col), tetra_place (layer, row, col)) # tetra_loop (layer, row, col + 1) rest)"

definition tetrahedron_targets :: "'a list \<Rightarrow> Object3D list" where
  "tetrahedron_targets data = map snd (tetra_loop (1, 0, 0) data)"

text \<open>The layer each record is placed in, in sequence order.\<close>

definition tetrahedron_layers :: "'a list \<Rightarrow> nat list" where
  "tetrahedron_layers data = map (\<lambda>((layer, row, col), object). layer) (tetra_loop (1, 0, 0) data)"


section \<open>Application state\<close>

text \<open>
  A managed object is a \<^verbatim>\<open>CSS3DObject\<close>: an \<^verbatim>\<open>Object3D\<close> that carries the card element
  built for its record. The card is built by \<^verbatim>\<open>createElementCard\<close> from the DOM and the
  data manager; it is a parameter of \<open>createObjects\<close>, and its result type is \<open>'e\<close>.
\<close>

record 'e CSS3DObject = Object3D +
  element :: 'e

text \<open>\<^verbatim>\<open>this.targets\<close>: a plain object with five own properties, each an array.\<close>

record layout_targets =
  table :: "Object3D list"
  sphere :: "Object3D list"
  helix :: "Object3D list"
  grid :: "Object3D list"
  tetrahedron :: "Object3D list"

text \<open>
  The interpolations registered in the global \<^verbatim>\<open>TWEEN\<close> group. A tween on
  \<^verbatim>\<open>object.position\<close> or \<^verbatim>\<open>object.rotation\<close> names its object by the object's index in
  \<^verbatim>\<open>this.objects\<close>, then the values it moves to and its duration; the last kind is the
  tween on \<^verbatim>\<open>this\<close> that only calls \<^verbatim>\<open>render\<close> on every update.
\<close>

datatype tween =
    PositionTween nat Vector3 real
  | RotationTween nat Vector3 real
  | RenderTween real

text \<open>
  The state: the fields of \<^verbatim>\<open>VisualizationApp\<close> that the layout, transition and selection
  code reads or writes, the \<^verbatim>\<open>TWEEN\<close> registry, and the number of \<^verbatim>\<open>Math.random()\<close> calls
  made so far. The scene graph, the camera, the renderer and the controls belong to the
  rendering host and are left out.
\<close>

record 'e app =
  objects :: "'e CSS3DObject list"
  targets :: layout_targets
  currentLayout :: string
  tweens :: "tween list"
  random_calls :: nat

text \<open>The state the constructor leaves.\<close>

definition new_app :: "'e app" where
  "new_app = \<lparr>objects = [],
              targets = \<lparr>table = [], sphere = [], helix = [], grid = [], tetrahedron = []\<rparr>,
              currentLayout = ''table'',
              tweens = [],
              random_calls = 0\<rparr>"

text \<open>
  \<^verbatim>\<open>Math.random()\<close>: the source of random numbers is a parameter \<open>rand\<close>, the value
  \<open>rand k\<close> being what the \<open>k\<close>-th call returns; JavaScript promises \<open>0 \<le> rand k < 1\<close>.
\<close>

definition Math_random :: "(nat \<Rightarrow> real) \<Rightarrow> 'e app \<Rightarrow> real \<times> 'e app" where
  "Math_random rand a = (rand (random_calls a), a\<lparr>random_calls := Suc (random_calls a)\<rparr>)"

text \<open>\<^verbatim>\<open>TWEEN.removeAll()\<close> and \<^verbatim>\<open>tween.start()\<close>.\<close>

definition TWEEN_removeAll :: "'e app \<Rightarrow> 'e app" where
  "TWEEN_removeAll a = a\<lparr>tweens := []\<rparr>"

definition tween_start :: "tween \<Rightarrow> 'e app \<Rightarrow> 'e app" where
  "tween_start t a = a\<lparr>tweens := tweens a @ [t]\<rparr>"


section \<open>Storing the layouts\<close>

definition calculateTableLayout :: "'a list \<Rightarrow> 'e app \<Rightarrow> 'e app" where
  "calculateTableLayout data a = a\<lparr>targets := (targets a)\<lparr>table := table_targets data\<rparr>\<rparr>"

definition calculateSphereLayout :: "look_at \<Rightarrow> 'a list \<Rightarrow> 'e app \<Rightarrow> 'e app" where
  "calculateSphereLayout lookAt data a =
     a\<lparr>targets := (targets a)\<lparr>sphere := sphere_targets lookAt data\<rparr>\<rparr>"

definition calculateSphereLayout_double :: "js_math \<Rightarrow> look_at \<Rightarrow> 'a list \<Rightarrow> 'e app \<Rightarrow> 'e app" where
  "calculateSphereLayout_double m lookAt data a =
     a\<lparr>targets := (targets a)\<lparr>sphere := sphere_targets_double m lookAt data\<rparr>\<rparr>"

definition calculateHelixLayout :: "look_at \<Rightarrow> 'a list \<Rightarrow> 'e app \<Rightarrow> 'e app" where
  "calculateHelixLayout lookAt data a =
     a\<lparr>targets := (targets a)\<lparr>helix := helix_targets lookAt data\<rparr>\<rparr>"

definition calculateGridLayout :: "'a list \<Rightarrow> 'e app \<Rightarrow> 'e app" where
  "calculateGridLayout data a = a\<lparr>targets := (targets a)\<lparr>grid := grid_targets data\<rparr>\<rparr>"

definition calculateTetrahedronLayout :: "'a list \<Rightarrow> 'e app \<Rightarrow> 'e app" where
  "calculateTetrahedronLayout data a =
     a\<lparr>targets := (targets a)\<lparr>tetrahedron := tetrahedron_targets data\<rparr>\<rparr>"

definition calculateLayouts :: "look_at \<Rightarrow> 'a list \<Rightarrow> 'e app \<Rightarrow> 'e app" where
  "calculateLayouts lookAt data a =
     calculateTetrahedronLayout data
       (calculateGridLayout data
         (calculateHelixLayout lookAt data
           (calculateSphereLayout lookAt data
             (calculateTableLayout data a))))"


section \<open>Transition controller\<close>

text \<open>
  What \<^verbatim>\<open>transform\<close> can be handed as \<^verbatim>\<open>targets\<close>: one of the target arrays, or, through
  \<^verbatim>\<open>changeLayout\<close>, whatever \<^verbatim>\<open>this.targets[layoutName]\<close> evaluates to. A property read on
  a plain object looks at the object's own properties first and then at
  \<^verbatim>\<open>Object.prototype\<close>, so the read gives an array for the five layout names, a built-in
  function or object (\<open>Inherited\<close>) for the names every object inherits, and
  \<^verbatim>\<open>undefined\<close> for any other name.
\<close>

datatype js_value = Undefined | TargetArray "Object3D list" | Inherited

datatype js_error = TypeError

definition Object_prototype_names :: "string list" where
  "Object_prototype_names =
     [''constructor'', ''hasOwnProperty'', ''isPrototypeOf'', ''propertyIsEnumerable'',
      ''toLocaleString'', ''toString'', ''valueOf'', ''__proto__'',
      ''__defineGetter__'', ''__defineSetter__'', ''__lookupGetter__'', ''__lookupSetter__'']"

definition targets_get :: "layout_targets \<Rightarrow> string \<Rightarrow> js_value" where
  "targets_get t name =
     (if name = ''table'' then TargetArray (table t)
      else if name = ''sphere'' then TargetArray (sphere t)
      else if name = ''helix'' then TargetArray (helix t)
      else if name = ''grid'' then TargetArray (grid t)
      else if name = ''tetrahedron'' then TargetArray (tetrahedron t)
      else if name \<in> set Object_prototype_names then Inherited
      else Undefined)"

text \<open>Truthiness: arrays (also empty ones), functions and objects are truthy.\<close>

fun truthy :: "js_value \<Rightarrow> bool" where
  "truthy Undefined = False"
| "truthy (TargetArray ts) = True"
| "truthy Inherited = True"

text \<open>
  \<^verbatim>\<open>targets[index]\<close>: the element of an array, \<^verbatim>\<open>undefined\<close> (here \<open>None\<close>) past its end
  and for a built-in function or object, which has no indexed properties. (On
  \<^verbatim>\<open>undefined\<close> the read itself throws the TypeError that the next line would throw.)
\<close>

fun element_at :: "js_value \<Rightarrow> nat \<Rightarrow> Object3D option" where
  "element_at (TargetArray ts) index = (if index < length ts then Some (ts ! index) else None)"
| "element_at Inherited index = None"
| "element_at Undefined index = None"

text \<open>
  The \<^verbatim>\<open>forEach\<close> of \<^verbatim>\<open>transform\<close>, from \<open>index\<close> on. Reading \<^verbatim>\<open>target.position\<close> of an
  undefined \<open>target\<close> throws a TypeError; the exception leaves the loop and the
  function with everything done so far in place. Within one iteration the target's
  fields are read before \<^verbatim>\<open>Math.random()\<close> is called, and a tween is registered only by
  its \<^verbatim>\<open>start()\<close>.
\<close>

fun transform_loop ::
  "(nat \<Rightarrow> real) \<Rightarrow> js_value \<Rightarrow> real \<Rightarrow> nat \<Rightarrow> 'e CSS3DObject list \<Rightarrow> 'e app
     \<Rightarrow> js_error option \<times> 'e app" where
  "transform_loop rand tgts duration index [] a = (None, a)"
| "transform_loop rand tgts duration index (object # rest) a =
     (case element_at tgts index of
        None \<Rightarrow> (Some TypeError, a)
      | Some target \<Rightarrow>
          (case Math_random rand a of (r1, a1) \<Rightarrow>
             let a2 = tween_start (PositionTween index (position target) (r1 * duration + duration)) a1
             in (case Math_random rand a2 of (r2, a3) \<Rightarrow>
                   let a4 = tween_start
                              (RotationTween index (rotation target) (r2 * duration + duration)) a3
                   in transform_loop rand tgts duration (index + 1) rest a4)))"

definition transform ::
  "(nat \<Rightarrow> real) \<Rightarrow> js_value \<Rightarrow> real \<Rightarrow> 'e app \<Rightarrow> js_error option \<times> 'e app" where
  "transform rand tgts duration a =
     (let a1 = TWEEN_removeAll a
      in case transform_loop rand tgts duration 0 (objects a1) a1 of
           (Some e, a2) \<Rightarrow> (Some e, a2)
         | (None, a2) \<Rightarrow> (None, tween_start (RenderTween (duration * 2)) a2))"


section \<open>Layout selector\<close>

definition changeLayout :: "(nat \<Rightarrow> real) \<Rightarrow> string \<Rightarrow> 'e app \<Rightarrow> js_error option \<times> 'e app" where
  "changeLayout rand layoutName a =
     (if truthy (targets_get (targets a) layoutName)
      then transform rand (targets_get (targets a) layoutName) 2000
             (a\<lparr>currentLayout := layoutName\<rparr>)
      else (None, a))"


section \<open>Creating the managed objects\<close>

text \<open>
  The \<^verbatim>\<open>data.forEach\<close> of \<^verbatim>\<open>createObjects\<close>: three \<^verbatim>\<open>Math.random()\<close> calls per record, in
  the order x, y, z, and a push onto \<^verbatim>\<open>this.objects\<close>.
\<close>

fun create_loop :: "(nat \<Rightarrow> real) \<Rightarrow> ('i \<Rightarrow> 'e) \<Rightarrow> 'i list \<Rightarrow> 'e app \<Rightarrow> 'e app" where
  "create_loop rand createElementCard [] a = a"
| "create_loop rand createElementCard (item # rest) a =
     (case Math_random rand a of (rx, a1) \<Rightarrow>
      case Math_random rand a1 of (ry, a2) \<Rightarrow>
      case Math_random rand a2 of (rz, a3) \<Rightarrow>
        let object = \<lparr>position = Vector3 (rx * 4000 - 2000) (ry * 4000 - 2000) (rz * 4000 - 2000),
                      rotation = Vector3 0 0 0,
                      element = createElementCard item\<rparr>
        in create_loop rand createElementCard rest (a3\<lparr>objects := objects a3 @ [object]\<rparr>))"

definition createObjects ::
  "look_at \<Rightarrow> (nat \<Rightarrow> real) \<Rightarrow> ('i \<Rightarrow> 'e) \<Rightarrow> 'i list \<Rightarrow> 'e app \<Rightarrow> js_error option \<times> 'e app" where
  "createObjects lookAt rand createElementCard data a =
     (let a1 = a\<lparr>objects := []\<rparr>;
          a2 = create_loop rand createElementCard data a1;
          a3 = calculateLayouts lookAt data a2
      in transform rand (TargetArray (table (targets a3))) 2000 a3)"


section \<open>Vocabulary of the statements\<close>

text \<open>The own property names of \<^verbatim>\<open>this.targets\<close>, as the constructor writes them.\<close>

definition layout_names :: "string list" where
  "layout_names = [''table'', ''sphere'', ''helix'', ''grid'', ''tetrahedron'']"

text \<open>
  The two tweens one iteration of \<^verbatim>\<open>transform\<close> starts for object \<open>i\<close>, when
  \<^verbatim>\<open>Math.random()\<close> had been called \<open>c\<close> times before \<^verbatim>\<open>transform\<close> was entered: the
  iteration draws the numbers \<open>c + 2 i\<close> and \<open>c + 2 i + 1\<close>.
\<close>

definition object_tweens :: "(nat \<Rightarrow> real) \<Rightarrow> Object3D list \<Rightarrow> real \<Rightarrow> nat \<Rightarrow> nat \<Rightarrow> tween list" where
  "object_tweens rand ts duration c i =
     [PositionTween i (position (ts ! i)) (rand (c + 2 * i) * duration + duration),
      RotationTween i (rotation (ts ! i)) (rand (c + 2 * i + 1) * duration + duration)]"

text \<open>The cube in which \<^verbatim>\<open>createObjects\<close> scatters the new objects.\<close>

definition in_start_cube :: "Vector3 \<Rightarrow> bool" where
  "in_start_cube p \<longleftrightarrow>
     - 2000 \<le> vx p \<and> vx p < 2000 \<and> - 2000 \<le> vy p \<and> vy p < 2000 \<and> - 2000 \<le> vz p \<and> vz p < 2000"

subsection \<open>Sample inputs\<close>

text \<open>
  The theorems below hold for every \<open>lookAt\<close>, every random source and every
  arithmetic. Their closed instances need one of each: a \<open>lookAt\<close> that answers with
  the point looked at, a \<^verbatim>\<open>Math.random\<close> that always returns 0, the arithmetic that
  never rounds, and the state after loading three records into a new application.
\<close>

definition sample_lookAt :: look_at where
  "sample_lookAt p v = v"

definition no_jitter :: "nat \<Rightarrow> real" where
  "no_jitter k = 0"

definition exact_math :: js_math where
  "exact_math = \<lparr>round_double = (\<lambda>x. x), Math_PI = pi, Math_acos = arccos, Math_sqrt = sqrt,
                  Math_cos = cos, Math_sin = sin\<rparr>"

definition sample_app :: "string app" where
  "sample_app =
     snd (createObjects sample_lookAt no_jitter (\<lambda>item. item) [''Ada'', ''Bob'', ''Cy''] new_app)"


section \<open>Facts about the layout loops\<close>

lemma forEach_index_map:
  "map (\<lambda>(index, item). f index) (enumerate 0 data) = map f [0..<length data]"
  by (induction data rule: rev_induct) (simp_all add: enumerate_append_eq)

lemma table_object_eq:
  "table_object index =
     \<lparr>position = Vector3 (real (index mod 20) * 160 - 1600) (900 - real (index div 20) * 180) 0,
      rotation = Vector3 0 0 0\<rparr>"
proof -
  have "\<lfloor>real index / real 20\<rfloor> = int (index div 20)"
    by (rule floor_divide_of_nat_eq)
  then show ?thesis
    by (simp add: table_object_def new_Object3D_def Let_def)
qed

lemma grid_object_eq:
  "grid_object index =
     \<lparr>position = Vector3 (real (index mod 10) * 200 - 1000)
                         (real (index div 10 div 5) * 200 - 400)
                         (real (index div 10 mod 5) * 200 - 500),
      rotation = Vector3 0 0 0\<rparr>"
proof -
  have l: "\<lfloor>real index / real 10\<rfloor> = int (index div 10)"
    by (rule floor_divide_of_nat_eq)
  have y: "\<lfloor>real_of_int (int (index div 10)) / real 5\<rfloor> = int (index div 10 div 5)"
    using floor_divide_of_nat_eq [of "index div 10" 5, where ?'a = real] by simp
  have z: "int (index div 10) mod int 5 = int (index div 10 mod 5)"
    by (simp add: zmod_int)
  show ?thesis
    unfolding grid_object_def Let_def l y z by (simp add: new_Object3D_def)
qed

lemma table_targets_nth: "i < length data \<Longrightarrow> table_targets data ! i = table_object i"
  by (simp add: table_targets_def forEach_index_map)

lemma grid_targets_nth: "i < length data \<Longrightarrow> grid_targets data ! i = grid_object i"
  by (simp add: grid_targets_def forEach_index_map)

text \<open>
  Inside the sphere loop the divisor \<^verbatim>\<open>data.length\<close> is at least 1 and the argument of
  \<^verbatim>\<open>Math.acos\<close> lies in its domain, so no iteration produces \<^verbatim>\<open>NaN\<close>.
\<close>

lemma sphere_acos_argument:
  assumes "index < n"
  shows "- 1 \<le> - 1 + (2 * real index) / real n \<and> - 1 + (2 * real index) / real n < 1"
proof -
  have n: "0 < real n" using assms by simp
  have "2 * real index < 2 * real n" using assms by simp
  then have "(2 * real index) / real n < 2"
    using n by (simp add: divide_simps)
  moreover have "0 \<le> (2 * real index) / real n"
    by simp
  ultimately show ?thesis by simp
qed

lemma sphere_object_eq:
  "sphere_object lookAt n index =
     \<lparr>position = Vector3 (900 * cos (sphere_theta n index) * sin (sphere_phi n index))
                         (900 * sin (sphere_theta n index) * sin (sphere_phi n index))
                         (900 * cos (sphere_phi n index)),
      rotation = lookAt
        (Vector3 (900 * cos (sphere_theta n index) * sin (sphere_phi n index))
                 (900 * sin (sphere_theta n index) * sin (sphere_phi n index))
                 (900 * cos (sphere_phi n index)))
        (multiplyScalar
          (Vector3 (900 * cos (sphere_theta n index) * sin (sphere_phi n index))
                   (900 * sin (sphere_theta n index) * sin (sphere_phi n index))
                   (900 * cos (sphere_phi n index))) 2)\<rparr>"
  by (simp add: sphere_object_def Let_def new_Object3D_def apply_lookAt_def)

subsection \<open>Rounding errors in the sphere loop\<close>

text \<open>
  Without rounding and with the exact functions, the body with the roundings written
  out is the body over the reals.
\<close>

lemma ieee_double_exact_math: "ieee_double exact_math"
  by (simp add: ieee_double_def exact_math_def)

lemma sphere_object_double_exact:
  "sphere_object_double exact_math lookAt n index = sphere_object lookAt n index"
  by (simp add: sphere_object_double_def sphere_object_def sphere_phi_double_def sphere_phi_def
      sphere_theta_double_def sphere_theta_def multiplyScalar_double_def multiplyScalar_def
      exact_math_def Let_def)

text \<open>
  A coordinate of the sphere is a rounded product of 900 with one or two values of
  \<^verbatim>\<open>Math.cos\<close> and \<^verbatim>\<open>Math.sin\<close>. Its distance from the exact product is bounded, and
  three coordinates that close to a point of the sphere of radius 900 are at a distance
  from the origin within the tolerance.
\<close>

lemma round_double_small:
  assumes "ieee_double m" and "\<bar>x\<bar> \<le> 2000"
  shows "\<bar>round_double m x - x\<bar> \<le> 1 / 1000000000"
proof -
  have big: "(2000::real) \<le> 2 ^ 1023"
  proof -
    have "(2000::real) \<le> 2 ^ 11" by simp
    also have "\<dots> \<le> 2 ^ 1023" by (rule power_increasing) simp_all
    finally show ?thesis .
  qed
  have tiny: "1 / (2::real) ^ 1075 \<le> 1 / 2 ^ 53"
  proof -
    have "(2::real) ^ 53 \<le> 2 ^ 1075" by (rule power_increasing) simp_all
    then show ?thesis by (simp add: divide_simps)
  qed
  have "\<bar>round_double m x - x\<bar> \<le> \<bar>x\<bar> / 2 ^ 53 + 1 / 2 ^ 1075"
    using assms big by (simp add: ieee_double_def)
  also have "\<dots> \<le> 2000 / 2 ^ 53 + 1 / 2 ^ 53"
    using assms(2) tiny by (intro add_mono divide_right_mono) simp_all
  also have "\<dots> \<le> 1 / 1000000000" by simp
  finally show ?thesis .
qed

lemma approx_mult:
  fixes a b A B :: real
  assumes "\<bar>a - A\<bar> \<le> da" and "\<bar>b - B\<bar> \<le> db" and "\<bar>A\<bar> \<le> MA" and "\<bar>b\<bar> \<le> Mb"
  shows "\<bar>a * b - A * B\<bar> \<le> da * Mb + MA * db"
proof -
  have "a * b - A * B = (a - A) * b + A * (b - B)" by (simp add: algebra_simps)
  then have "\<bar>a * b - A * B\<bar> \<le> \<bar>a - A\<bar> * \<bar>b\<bar> + \<bar>A\<bar> * \<bar>b - B\<bar>"
    by (metis abs_mult abs_triangle_ineq)
  also have "\<dots> \<le> da * Mb + MA * db"
    using assms by (intro add_mono mult_mono) (auto intro: order_trans [OF abs_ge_zero])
  finally show ?thesis .
qed

lemma approx_square:
  fixes x X :: real
  assumes "\<bar>x - X\<bar> \<le> d" and "\<bar>X\<bar> \<le> M"
  shows "\<bar>x\<^sup>2 - X\<^sup>2\<bar> \<le> d * (d + 2 * M)"
proof -
  have "\<bar>x + X\<bar> \<le> \<bar>x - X\<bar> + 2 * \<bar>X\<bar>" by simp
  then have s: "\<bar>x + X\<bar> \<le> d + 2 * M" using assms by simp
  have "x\<^sup>2 - X\<^sup>2 = (x - X) * (x + X)" by (simp add: power2_eq_square algebra_simps)
  then have "\<bar>x\<^sup>2 - X\<^sup>2\<bar> = \<bar>x - X\<bar> * \<bar>x + X\<bar>" by (simp add: abs_mult)
  also have "\<dots> \<le> d * (d + 2 * M)"
    using assms(1) s by (intro mult_mono) (auto intro: order_trans [OF abs_ge_zero])
  finally show ?thesis .
qed

lemma rounded_product_error:
  assumes m: "ieee_double m"
    and C: "\<bar>C - c\<bar> \<le> 1 / 100000000" and S: "\<bar>S - s\<bar> \<le> 1 / 100000000"
    and c: "\<bar>c\<bar> \<le> 1" and s: "\<bar>s\<bar> \<le> 1"
  shows "\<bar>round_double m (round_double m (900 * C) * S) - 900 * c * s\<bar> \<le> 3 / 100000"
    and "\<bar>round_double m (900 * C) * S\<bar> \<le> 2000"
proof -
  let ?a = "round_double m (900 * C)"
  have Cb: "\<bar>C\<bar> \<le> 1 + 1 / 100000000" using C c by linarith
  have Sb: "\<bar>S\<bar> \<le> 1 + 1 / 100000000" using S s by linarith
  have b0: "\<bar>900 * C\<bar> \<le> 2000" using Cb by (simp add: abs_mult)
  have a1: "\<bar>?a - 900 * C\<bar> \<le> 1 / 1000000000" using round_double_small [OF m b0] .
  have "900 * C - 900 * c = 900 * (C - c)" by (simp add: algebra_simps)
  then have "\<bar>900 * C - 900 * c\<bar> = 900 * \<bar>C - c\<bar>" by (simp only: abs_mult abs_numeral)
  then have "\<bar>900 * C - 900 * c\<bar> \<le> 9 / 1000000" using C by simp
  then have a2: "\<bar>?a - 900 * c\<bar> \<le> 1 / 100000" using a1 by linarith
  have A: "\<bar>900 * c\<bar> \<le> 900" using c by (simp add: abs_mult)
  have "\<bar>?a * S - 900 * c * s\<bar> \<le> 1 / 100000 * (1 + 1 / 100000000) + 900 * (1 / 100000000)"
    by (rule approx_mult [OF a2 S A Sb])
  then have p: "\<bar>?a * S - 900 * c * s\<bar> \<le> 2 / 100000" by simp
  have "\<bar>c * s\<bar> \<le> 1" using c s by (simp add: abs_mult mult_le_one)
  then have X: "\<bar>900 * c * s\<bar> \<le> 900" by (simp add: abs_mult mult.assoc)
  show b: "\<bar>?a * S\<bar> \<le> 2000" using p X by linarith
  have "\<bar>round_double m (?a * S) - ?a * S\<bar> \<le> 1 / 1000000000"
    using round_double_small [OF m b] .
  then show "\<bar>round_double m (?a * S) - 900 * c * s\<bar> \<le> 3 / 100000" using p by linarith
qed

lemma rounded_scaled_error:
  assumes m: "ieee_double m" and C: "\<bar>C - c\<bar> \<le> 1 / 100000000" and c: "\<bar>c\<bar> \<le> 1"
  shows "\<bar>round_double m (900 * C) - 900 * c\<bar> \<le> 3 / 100000"
    and "\<bar>900 * C\<bar> \<le> 2000"
proof -
  have Cb: "\<bar>C\<bar> \<le> 1 + 1 / 100000000" using C c by linarith
  show b: "\<bar>900 * C\<bar> \<le> 2000" using Cb by (simp add: abs_mult)
  have a1: "\<bar>round_double m (900 * C) - 900 * C\<bar> \<le> 1 / 1000000000"
    using round_double_small [OF m b] .
  have "900 * C - 900 * c = 900 * (C - c)" by (simp add: algebra_simps)
  then have "\<bar>900 * C - 900 * c\<bar> = 900 * \<bar>C - c\<bar>" by (simp only: abs_mult abs_numeral)
  then have "\<bar>900 * C - 900 * c\<bar> \<le> 9 / 1000000" using C by simp
  then show "\<bar>round_double m (900 * C) - 900 * c\<bar> \<le> 3 / 100000" using a1 by linarith
qed

lemma near_radius_900:
  fixes x y z X Y Z :: real
  assumes x: "\<bar>x - X\<bar> \<le> 3 / 100000" and y: "\<bar>y - Y\<bar> \<le> 3 / 100000" and z: "\<bar>z - Z\<bar> \<le> 3 / 100000"
    and X: "\<bar>X\<bar> \<le> 900" and Y: "\<bar>Y\<bar> \<le> 900" and Z: "\<bar>Z\<bar> \<le> 900"
    and on: "X\<^sup>2 + Y\<^sup>2 + Z\<^sup>2 = 900\<^sup>2"
  shows "\<bar>sqrt (x\<^sup>2 + y\<^sup>2 + z\<^sup>2) - 900\<bar> \<le> 1 / 10 ^ 6 * 900"
proof -
  have "\<bar>x\<^sup>2 - X\<^sup>2\<bar> \<le> 3 / 100000 * (3 / 100000 + 2 * 900)" by (rule approx_square [OF x X])
  then have 1: "\<bar>x\<^sup>2 - X\<^sup>2\<bar> \<le> 1 / 10" by simp
  have "\<bar>y\<^sup>2 - Y\<^sup>2\<bar> \<le> 3 / 100000 * (3 / 100000 + 2 * 900)" by (rule approx_square [OF y Y])
  then have 2: "\<bar>y\<^sup>2 - Y\<^sup>2\<bar> \<le> 1 / 10" by simp
  have "\<bar>z\<^sup>2 - Z\<^sup>2\<bar> \<le> 3 / 100000 * (3 / 100000 + 2 * 900)" by (rule approx_square [OF z Z])
  then have 3: "\<bar>z\<^sup>2 - Z\<^sup>2\<bar> \<le> 1 / 10" by simp
  have lo: "(900 - 9 / 10000)\<^sup>2 \<le> x\<^sup>2 + y\<^sup>2 + z\<^sup>2"
  proof -
    have "(900 - 9 / 10000 :: real)\<^sup>2 \<le> 900\<^sup>2 - 1" by (simp add: power2_eq_square)
    then show ?thesis using 1 2 3 on by linarith
  qed
  have hi: "x\<^sup>2 + y\<^sup>2 + z\<^sup>2 \<le> (900 + 9 / 10000)\<^sup>2"
  proof -
    have "(900::real)\<^sup>2 + 1 \<le> (900 + 9 / 10000)\<^sup>2" by (simp add: power2_eq_square)
    then show ?thesis using 1 2 3 on by linarith
  qed
  have "sqrt ((900 - 9 / 10000)\<^sup>2) \<le> sqrt (x\<^sup>2 + y\<^sup>2 + z\<^sup>2)"
    using lo by (rule real_sqrt_le_mono)
  then have l: "900 - 9 / 10000 \<le> sqrt (x\<^sup>2 + y\<^sup>2 + z\<^sup>2)" by simp
  have "sqrt (x\<^sup>2 + y\<^sup>2 + z\<^sup>2) \<le> sqrt ((900 + 9 / 10000)\<^sup>2)"
    using hi by (rule real_sqrt_le_mono)
  then have h: "sqrt (x\<^sup>2 + y\<^sup>2 + z\<^sup>2) \<le> 900 + 9 / 10000" by simp
  have "\<bar>sqrt (x\<^sup>2 + y\<^sup>2 + z\<^sup>2) - 900\<bar> \<le> 9 / 10000" using l h by linarith
  then show ?thesis by simp
qed

lemma sphere_targets_double_nth:
  "i < length data \<Longrightarrow>
   sphere_targets_double m lookAt data ! i = sphere_object_double m lookAt (length data) i"
  by (simp add: sphere_targets_double_def forEach_index_map)

lemma sphere_object_double_near_900:
  assumes m: "ieee_double m"
  shows "\<bar>vector_length (position (sphere_object_double m lookAt n index)) - 900\<bar> \<le> 1 / 10 ^ 6 * 900"
    and "rotation (sphere_object_double m lookAt n index) =
           lookAt (position (sphere_object_double m lookAt n index))
                  (multiplyScalar (position (sphere_object_double m lookAt n index)) 2)"
proof -
  let ?phi = "sphere_phi_double m n index"
  let ?theta = "sphere_theta_double m n index"
  let ?x = "round_double m (round_double m (900 * Math_cos m ?theta) * Math_sin m ?phi)"
  let ?y = "round_double m (round_double m (900 * Math_sin m ?theta) * Math_sin m ?phi)"
  let ?z = "round_double m (900 * Math_cos m ?phi)"
  have cosm: "\<And>t. \<bar>Math_cos m t - cos t\<bar> \<le> 1 / 100000000"
    and sinm: "\<And>t. \<bar>Math_sin m t - sin t\<bar> \<le> 1 / 100000000"
    and twice: "\<And>t. \<bar>t\<bar> \<le> 2 ^ 1022 \<Longrightarrow> round_double m (round_double m t * 2) = round_double m t * 2"
    using m by (simp_all add: ieee_double_def)
  have big: "(2000::real) \<le> 2 ^ 1022"
  proof -
    have "(2000::real) \<le> 2 ^ 11" by simp
    also have "\<dots> \<le> 2 ^ 1022" by (rule power_increasing) simp_all
    finally show ?thesis .
  qed
  have pos: "position (sphere_object_double m lookAt n index) = Vector3 ?x ?y ?z"
    by (simp add: sphere_object_double_def Let_def new_Object3D_def apply_lookAt_def)
  have rot: "rotation (sphere_object_double m lookAt n index) =
      lookAt (Vector3 ?x ?y ?z) (multiplyScalar_double m (Vector3 ?x ?y ?z) 2)"
    by (simp add: sphere_object_double_def Let_def new_Object3D_def apply_lookAt_def)
  have x: "\<bar>?x - 900 * cos ?theta * sin ?phi\<bar> \<le> 3 / 100000"
    and xb: "\<bar>round_double m (900 * Math_cos m ?theta) * Math_sin m ?phi\<bar> \<le> 2000"
    by (rule rounded_product_error [OF m cosm sinm]; simp)+
  have y: "\<bar>?y - 900 * sin ?theta * sin ?phi\<bar> \<le> 3 / 100000"
    and yb: "\<bar>round_double m (900 * Math_sin m ?theta) * Math_sin m ?phi\<bar> \<le> 2000"
    by (rule rounded_product_error [OF m sinm sinm]; simp)+
  have z: "\<bar>?z - 900 * cos ?phi\<bar> \<le> 3 / 100000"
    and zb: "\<bar>900 * Math_cos m ?phi\<bar> \<le> 2000"
    by (rule rounded_scaled_error [OF m cosm]; simp)+
  have X: "\<bar>900 * cos ?theta * sin ?phi\<bar> \<le> 900"
  proof -
    have "\<bar>cos ?theta * sin ?phi\<bar> \<le> 1" by (simp add: abs_mult mult_le_one)
    then show ?thesis by (simp add: abs_mult mult.assoc)
  qed
  have Y: "\<bar>900 * sin ?theta * sin ?phi\<bar> \<le> 900"
  proof -
    have "\<bar>sin ?theta * sin ?phi\<bar> \<le> 1" by (simp add: abs_mult mult_le_one)
    then show ?thesis by (simp add: abs_mult mult.assoc)
  qed
  have Z: "\<bar>900 * cos ?phi\<bar> \<le> 900" by (simp add: abs_mult)
  have on: "(900 * cos ?theta * sin ?phi)\<^sup>2 + (900 * sin ?theta * sin ?phi)\<^sup>2 + (900 * cos ?phi)\<^sup>2
            = 900\<^sup>2"
  proof -
    have st: "(sin ?theta)\<^sup>2 = 1 - (cos ?theta)\<^sup>2" by (rule sin_squared_eq)
    have cp: "(cos ?phi)\<^sup>2 = 1 - (sin ?phi)\<^sup>2" by (rule cos_squared_eq)
    show ?thesis unfolding power_mult_distrib st cp by (simp add: algebra_simps)
  qed
  show "\<bar>vector_length (position (sphere_object_double m lookAt n index)) - 900\<bar> \<le> 1 / 10 ^ 6 * 900"
    unfolding pos vector_length_def Vector3.sel by (rule near_radius_900 [OF x y z X Y Z on])
  have dx: "round_double m (?x * 2) = ?x * 2" using xb big by (intro twice) linarith
  have dy: "round_double m (?y * 2) = ?y * 2" using yb big by (intro twice) linarith
  have dz: "round_double m (?z * 2) = ?z * 2" using zb big by (intro twice) linarith
  show "rotation (sphere_object_double m lookAt n index) =
           lookAt (position (sphere_object_double m lookAt n index))
                  (multiplyScalar (position (sphere_object_double m lookAt n index)) 2)"
    unfolding rot pos by (simp add: multiplyScalar_double_def multiplyScalar_def dx dy dz)
qed

subsection \<open>The tetrahedron loop and the stored targets\<close>

lemma tetra_loop_replicate: "tetra_loop c xs = tetra_loop c (replicate (length xs) ())"
  by (induction xs arbitrary: c) (auto split: prod.splits)

lemma tetra_loop_length: "length (tetra_loop c xs) = length xs"
  by (induction xs arbitrary: c) (auto split: prod.splits)

lemma tetra_loop_ten:
  "tetra_loop (1, 0, 0) (replicate 10 ()) =
     map (\<lambda>c. (c, tetra_place c))
       [(1, 0, 0), (2, 0, 0), (2, 1, 0), (2, 1, 1),
        (3, 0, 0), (3, 1, 0), (3, 1, 1), (3, 2, 0), (3, 2, 1), (3, 2, 2)]"
  by (simp add: numeral_eq_Suc del: tetra_place.simps)

lemma targets_calculateLayouts:
  "targets (calculateLayouts lookAt data a) =
     \<lparr>table = table_targets data, sphere = sphere_targets lookAt data,
      helix = helix_targets lookAt data, grid = grid_targets data,
      tetrahedron = tetrahedron_targets data\<rparr>"
  by (simp add: calculateLayouts_def calculateTableLayout_def calculateSphereLayout_def
      calculateHelixLayout_def calculateGridLayout_def calculateTetrahedronLayout_def)

lemma calculateLayouts_other_fields:
  "objects (calculateLayouts lookAt data a) = objects a
   \<and> currentLayout (calculateLayouts lookAt data a) = currentLayout a
   \<and> tweens (calculateLayouts lookAt data a) = tweens a
   \<and> random_calls (calculateLayouts lookAt data a) = random_calls a"
  by (simp add: calculateLayouts_def calculateTableLayout_def calculateSphereLayout_def
      calculateHelixLayout_def calculateGridLayout_def calculateTetrahedronLayout_def)


section \<open>Properties of the layout engine\<close>

subsection \<open>Table\<close>

text \<open>
  Claim C9. For every index \<open>i\<close> of the record sequence, the table layout places record
  \<open>i\<close> at column \<open>i mod 20\<close> and row \<open>i div 20\<close>, with \<open>x = col * 160 - (20 * 160) / 2\<close>,
  \<open>y = - (row * 180) + (10 * 180) / 2\<close>, \<open>z = 0\<close>, and leaves the rotation that of a new
  object. When there are 20 records, all of them have the \<open>y\<close> of the first, each \<open>x\<close>
  is 160 more than the one before, and the first \<open>x\<close> is \<open>- (20 * 160) / 2\<close>.
\<close>

theorem table_layout_formula:
  assumes "i < length data"
  shows "table (targets (calculateTableLayout data a)) ! i =
           \<lparr>position = Vector3 (real (i mod 20) * 160 - (20 * 160) / 2)
                               (- (real (i div 20) * 180) + (10 * 180) / 2)
                               0,
            rotation = rotation new_Object3D\<rparr>
         \<and> (length data = 20 \<longrightarrow>
              vy (position (table (targets (calculateTableLayout data a)) ! i)) =
                vy (position (table (targets (calculateTableLayout data a)) ! 0))
            \<and> (i + 1 < 20 \<longrightarrow>
                 vx (position (table (targets (calculateTableLayout data a)) ! (i + 1))) =
                   vx (position (table (targets (calculateTableLayout data a)) ! i)) + 160)
            \<and> vx (position (table (targets (calculateTableLayout data a)) ! 0)) = - ((20 * 160) / 2))"
proof -
  have T: "table (targets (calculateTableLayout data a)) = table_targets data"
    by (simp add: calculateTableLayout_def)
  have nth: "\<And>j. j < length data \<Longrightarrow> table_targets data ! j = table_object j"
    by (rule table_targets_nth)
  have first: "table_targets data ! i =
      \<lparr>position = Vector3 (real (i mod 20) * 160 - (20 * 160) / 2)
                          (- (real (i div 20) * 180) + (10 * 180) / 2) 0,
       rotation = rotation new_Object3D\<rparr>"
    using assms by (simp add: nth table_object_eq new_Object3D_def)
  have second:
    "vy (position (table_targets data ! i)) = vy (position (table_targets data ! 0))
     \<and> (i + 1 < 20 \<longrightarrow>
          vx (position (table_targets data ! (i + 1))) = vx (position (table_targets data ! i)) + 160)
     \<and> vx (position (table_targets data ! 0)) = - ((20 * 160) / 2)"
    if n: "length data = 20"
  proof -
    have i: "i < 20" using assms n by simp
    have a: "vy (position (table_targets data ! i)) = vy (position (table_targets data ! 0))"
      using i n by (simp add: nth table_object_eq)
    have b: "vx (position (table_targets data ! (i + 1))) = vx (position (table_targets data ! i)) + 160"
      if "i + 1 < 20"
      using that n by (simp add: nth table_object_eq)
    have c: "vx (position (table_targets data ! 0)) = - ((20 * 160) / 2)"
      using n by (simp add: nth table_object_eq)
    show ?thesis using a b c by blast
  qed
  show ?thesis unfolding T using first second by blast
qed

theorem table_layout_formula_witness:
  "18 < length (replicate 20 ())
   \<and> table (targets (calculateTableLayout (replicate 20 ()) (new_app :: unit app))) ! 18 =
       \<lparr>position = Vector3 1280 900 0, rotation = Vector3 0 0 0\<rparr>
   \<and> vy (position (table (targets (calculateTableLayout (replicate 20 ()) (new_app :: unit app))) ! 18)) =
       vy (position (table (targets (calculateTableLayout (replicate 20 ()) (new_app :: unit app))) ! 0))
   \<and> vx (position (table (targets (calculateTableLayout (replicate 20 ()) (new_app :: unit app))) ! (18 + 1))) =
       vx (position (table (targets (calculateTableLayout (replicate 20 ()) (new_app :: unit app))) ! 18)) + 160
   \<and> vx (position (table (targets (calculateTableLayout (replicate 20 ()) (new_app :: unit app))) ! 0)) =
       - 1600"
proof -
  let ?T = "table (targets (calculateTableLayout (replicate 20 ()) (new_app :: unit app)))"
  have h: "18 < length (replicate 20 ())" by simp
  have n: "length (replicate 20 ()) = 20" by simp
  have s: "(18::nat) + 1 < 20" by simp
  note t = table_layout_formula [OF h, of "new_app :: unit app"]
  from t have 1: "?T ! 18 = \<lparr>position = Vector3 1280 900 0, rotation = Vector3 0 0 0\<rparr>"
    by (simp add: new_Object3D_def)
  from t n have 2: "vy (position (?T ! 18)) = vy (position (?T ! 0))" by blast
  from t n s have 3: "vx (position (?T ! (18 + 1))) = vx (position (?T ! 18)) + 160" by blast
  from t n have "vx (position (?T ! 0)) = - ((20 * 160) / 2)" by blast
  then have 4: "vx (position (?T ! 0)) = - 1600" by simp
  show ?thesis using h 1 2 3 4 by blast
qed

subsection \<open>Grid\<close>

text \<open>
  Claim C5. For every index \<open>i\<close> of the record sequence, solving the centring formula
  \<open>coord = idx * 200 - (count * 200) / 2\<close> for \<open>idx\<close>, with the counts 10, 4 and 5 of the
  x, y and z axes, on the position the grid layout gives record \<open>i\<close> yields exactly
  \<open>(i mod 10, (i div 10) div 5, (i div 10) mod 5)\<close>.
\<close>

theorem grid_layout_inverts:
  assumes "i < length data"
  shows "(let p = position (grid (targets (calculateGridLayout data a)) ! i)
          in ((vx p + (10 * 200) / 2) / 200, (vy p + (4 * 200) / 2) / 200, (vz p + (5 * 200) / 2) / 200))
         = (real (i mod 10), real (i div 10 div 5), real (i div 10 mod 5))"
  using assms by (simp add: calculateGridLayout_def grid_targets_nth grid_object_eq)

theorem grid_layout_inverts_witness:
  "57 < length (replicate 60 ())
   \<and> (let p = position (grid (targets (calculateGridLayout (replicate 60 ()) (new_app :: unit app))) ! 57)
       in ((vx p + (10 * 200) / 2) / 200, (vy p + (4 * 200) / 2) / 200, (vz p + (5 * 200) / 2) / 200))
      = (7, 1, 0)"
proof -
  have h: "57 < length (replicate 60 ())" by simp
  show ?thesis
    using grid_layout_inverts [OF h, of "new_app :: unit app"] by simp
qed

subsection \<open>Tetrahedron\<close>

text \<open>
  Claim C4. The counters are advanced before each placement by \<open>tetra_advance\<close> (if
  \<open>col > row\<close> then \<open>col = 0\<close> and \<open>row + 1\<close>; then if \<open>row \<ge> layer\<close> then \<open>row = 0\<close>,
  \<open>col = 0\<close> and \<open>layer + 1\<close>) and \<open>col\<close> is incremented after it. For ten records this
  puts record 0 in layer 1, records 1 to 3 in layer 2 and records 4 to 9 in layer 3, and
  the record placed with counters \<open>(layer, row, col)\<close> gets
  \<open>x = (col - row / 2) * 180\<close>, \<open>y = - (layer * 160) + 600\<close>, \<open>z = (row - layer / 2) * 180\<close>
  and the rotation of a new object.
\<close>

theorem tetrahedron_ten_records:
  assumes "length data = 10"
  shows "tetrahedron_layers data = [1, 2, 2, 2, 3, 3, 3, 3, 3, 3]
       \<and> tetrahedron (targets (calculateTetrahedronLayout data a)) =
           map (\<lambda>(layer, row, col).
                  \<lparr>position = Vector3 ((real col - real row / 2) * 180)
                                      (- (real layer * 160) + 600)
                                      ((real row - real layer / 2) * 180),
                   rotation = rotation new_Object3D\<rparr>)
             [(1, 0, 0), (2, 0, 0), (2, 1, 0), (2, 1, 1),
              (3, 0, 0), (3, 1, 0), (3, 1, 1), (3, 2, 0), (3, 2, 1), (3, 2, 2)]"
proof -
  have loop: "tetra_loop (1, 0, 0) data = map (\<lambda>c. (c, tetra_place c))
       [(1, 0, 0), (2, 0, 0), (2, 1, 0), (2, 1, 1),
        (3, 0, 0), (3, 1, 0), (3, 1, 1), (3, 2, 0), (3, 2, 1), (3, 2, 2)]"
    using tetra_loop_replicate [of "(1, 0, 0)" data] assms tetra_loop_ten by simp
  have layers: "tetrahedron_layers data = [1, 2, 2, 2, 3, 3, 3, 3, 3, 3]"
    unfolding tetrahedron_layers_def loop by simp
  have objs: "tetrahedron_targets data = map tetra_place
       [(1, 0, 0), (2, 0, 0), (2, 1, 0), (2, 1, 1),
        (3, 0, 0), (3, 1, 0), (3, 1, 1), (3, 2, 0), (3, 2, 1), (3, 2, 2)]"
    unfolding tetrahedron_targets_def loop by (simp del: tetra_place.simps)
  show ?thesis
    unfolding layers calculateTetrahedronLayout_def
    by (simp add: objs new_Object3D_def)
qed

theorem tetrahedron_ten_records_witness:
  "length [0, 1, 2, 3, 4, 5, 6, 7, 8, 9 :: nat] = 10
   \<and> tetrahedron_layers [0, 1, 2, 3, 4, 5, 6, 7, 8, 9 :: nat] = [1, 2, 2, 2, 3, 3, 3, 3, 3, 3]
   \<and> map position (tetrahedron (targets
        (calculateTetrahedronLayout [0, 1, 2, 3, 4, 5, 6, 7, 8, 9 :: nat] (new_app :: unit app)))) =
       [Vector3 0 440 (- 90),
        Vector3 0 280 (- 180), Vector3 (- 90) 280 0, Vector3 90 280 0,
        Vector3 0 120 (- 270), Vector3 (- 90) 120 (- 90), Vector3 90 120 (- 90),
        Vector3 (- 180) 120 90, Vector3 0 120 90, Vector3 180 120 90]"
  using tetrahedron_ten_records [of "[0, 1, 2, 3, 4, 5, 6, 7, 8, 9 :: nat]" "new_app :: unit app"]
  by simp

subsection \<open>All five layouts\<close>

text \<open>
  Claim C6. For every record sequence, of any length \<open>n \<ge> 0\<close>, each of the five target sets
  that \<^verbatim>\<open>calculateLayouts\<close> stores has exactly \<open>n\<close> transforms, and the transform at
  position \<open>i\<close> is the one computed for index \<open>i\<close>.
\<close>

theorem layouts_have_one_target_per_record:
  "length (table (targets (calculateLayouts lookAt data a))) = length data
   \<and> length (sphere (targets (calculateLayouts lookAt data a))) = length data
   \<and> length (helix (targets (calculateLayouts lookAt data a))) = length data
   \<and> length (grid (targets (calculateLayouts lookAt data a))) = length data
   \<and> length (tetrahedron (targets (calculateLayouts lookAt data a))) = length data
   \<and> table (targets (calculateLayouts lookAt data a)) = map table_object [0..<length data]
   \<and> sphere (targets (calculateLayouts lookAt data a)) =
        map (sphere_object lookAt (length data)) [0..<length data]
   \<and> helix (targets (calculateLayouts lookAt data a)) = map (helix_object lookAt) [0..<length data]
   \<and> grid (targets (calculateLayouts lookAt data a)) = map grid_object [0..<length data]"
  by (simp add: targets_calculateLayouts table_targets_def sphere_targets_def helix_targets_def
      grid_targets_def tetrahedron_targets_def forEach_index_map tetra_loop_length)

text \<open>
  Claim C7. The layouts read nothing of a record but its place in the sequence: two
  record sequences of the same length, whatever their records are, give the same five
  target sets.
\<close>

theorem layouts_ignore_record_contents:
  fixes data1 :: "'a list" and data2 :: "'b list"
  assumes "length data1 = length data2"
  shows "targets (calculateLayouts lookAt data1 a) = targets (calculateLayouts lookAt data2 a)
       \<and> table_targets data1 = table_targets data2
       \<and> sphere_targets lookAt data1 = sphere_targets lookAt data2
       \<and> helix_targets lookAt data1 = helix_targets lookAt data2
       \<and> grid_targets data1 = grid_targets data2
       \<and> tetrahedron_targets data1 = tetrahedron_targets data2"
proof -
  have "tetra_loop (1, 0, 0) data1 = tetra_loop (1, 0, 0) data2"
    using tetra_loop_replicate [of "(1, 0, 0)" data1] tetra_loop_replicate [of "(1, 0, 0)" data2] assms
    by simp
  then have "tetrahedron_targets data1 = tetrahedron_targets data2"
    by (simp add: tetrahedron_targets_def)
  then show ?thesis
    using assms
    by (simp add: targets_calculateLayouts table_targets_def sphere_targets_def helix_targets_def
        grid_targets_def forEach_index_map)
qed

theorem layouts_ignore_record_contents_witness:
  "length [''Ada'', ''Bob''] = length [True, False]
   \<and> targets (calculateLayouts sample_lookAt [''Ada'', ''Bob''] (new_app :: unit app)) =
       targets (calculateLayouts sample_lookAt [True, False] (new_app :: unit app))"
proof -
  have h: "length [''Ada'', ''Bob''] = length [True, False]" by simp
  show ?thesis
    using h layouts_ignore_record_contents [OF h, of sample_lookAt "new_app :: unit app"] by blast
qed

subsection \<open>Sphere\<close>

text \<open>
  Claim C8. For every index \<open>i\<close> of the record sequence, the position the sphere layout
  computes for record \<open>i\<close> in double arithmetic is at a distance from the origin that
  differs from 900 by at most \<open>10\<^sup>-\<^sup>6\<close> of 900, and the object is turned by \<^verbatim>\<open>lookAt\<close>
  towards its own position scaled by 2. The distance is the Euclidean distance of the
  coordinates the code stores; the engine's arithmetic is any that meets \<open>ieee_double\<close>.
\<close>

theorem sphere_positions_within_tolerance:
  assumes "ieee_double m" and "i < length data"
  shows "\<bar>vector_length (position (sphere (targets (calculateSphereLayout_double m lookAt data a)) ! i))
           - 900\<bar> \<le> 1 / 10 ^ 6 * 900
       \<and> rotation (sphere (targets (calculateSphereLayout_double m lookAt data a)) ! i) =
           lookAt (position (sphere (targets (calculateSphereLayout_double m lookAt data a)) ! i))
                  (multiplyScalar
                     (position (sphere (targets (calculateSphereLayout_double m lookAt data a)) ! i)) 2)"
proof -
  have S: "sphere (targets (calculateSphereLayout_double m lookAt data a)) ! i =
           sphere_object_double m lookAt (length data) i"
    using assms(2) by (simp add: calculateSphereLayout_double_def sphere_targets_double_nth)
  show ?thesis
    unfolding S using sphere_object_double_near_900 [OF assms(1), of lookAt "length data" i] by blast
qed

theorem sphere_positions_within_tolerance_witness:
  "ieee_double exact_math
   \<and> 2 < length [''a'', ''b'', ''c'']
   \<and> \<bar>vector_length (position (sphere (targets
          (calculateSphereLayout_double exact_math sample_lookAt [''a'', ''b'', ''c'']
             (new_app :: unit app))) ! 2)) - 900\<bar> \<le> 1 / 10 ^ 6 * 900
   \<and> sphere (targets (calculateSphereLayout_double exact_math sample_lookAt [''a'', ''b'', ''c'']
          (new_app :: unit app))) ! 2 = sphere_object sample_lookAt 3 2"
proof -
  have h: "2 < length [''a'', ''b'', ''c'']" by simp
  have same: "sphere (targets (calculateSphereLayout_double exact_math sample_lookAt [''a'', ''b'', ''c'']
          (new_app :: unit app))) ! 2 = sphere_object sample_lookAt 3 2"
  proof -
    have n: "length [''a'', ''b'', ''c''] = 3" by simp
    show ?thesis
      using sphere_targets_double_nth [OF h, of exact_math sample_lookAt]
      unfolding n by (simp add: calculateSphereLayout_double_def sphere_object_double_exact)
  qed
  show ?thesis
    using ieee_double_exact_math h same
      sphere_positions_within_tolerance [OF ieee_double_exact_math h, of sample_lookAt
        "new_app :: unit app"]
    by blast
qed

text \<open>
  Claim C3, as the code has it. The sphere layout has no failing branch: on no record it
  stores the empty array, and on one record it computes \<open>phi = acos (- 1) = \<pi>\<close> and
  \<open>theta = sqrt \<pi> * \<pi>\<close>, which places the record at the pole \<open>z = - 900\<close> (with
  \<open>x = y = 0\<close> in exact arithmetic), turned towards \<open>(0, 0, - 1800)\<close>.
\<close>

theorem sphere_small_inputs:
  "sphere (targets (calculateSphereLayout lookAt [] a)) = []
   \<and> sphere_phi 1 0 = pi
   \<and> sphere_theta 1 0 = sqrt pi * pi
   \<and> sphere (targets (calculateSphereLayout lookAt [item] a)) =
       [\<lparr>position = Vector3 0 0 (- 900),
         rotation = lookAt (Vector3 0 0 (- 900)) (Vector3 0 0 (- 1800))\<rparr>]"
  by (simp add: calculateSphereLayout_def sphere_phi_def sphere_theta_def sphere_targets_def
      enumerate_eq_zip sphere_object_eq multiplyScalar_def)

text \<open>
  Claim C3, as the specification words it, asks for \<open>phi = 0\<close> and \<open>theta = 0\<close> on a single
  record, that is the pole \<open>z = 900\<close>. The code gives neither.
\<close>

theorem sphere_single_record_counterexample:
  "sphere_phi 1 0 \<noteq> 0
   \<and> sphere_theta 1 0 \<noteq> 0
   \<and> position (hd (sphere_targets sample_lookAt [''only''])) = Vector3 0 0 (- 900)
   \<and> position (hd (sphere_targets sample_lookAt [''only''])) \<noteq> Vector3 0 0 900"
  by (simp add: sphere_phi_def sphere_theta_def sphere_targets_def enumerate_eq_zip sphere_object_eq)


section \<open>Properties of the transition controller\<close>

text \<open>
  The loop of \<^verbatim>\<open>transform\<close> on an array of targets, in closed form. While the index is
  inside the array every iteration starts its two tweens; the first index past the end
  of the array stops the loop with a TypeError and keeps the tweens started before.
\<close>

lemma transform_loop_ok:
  "index + length objs \<le> length ts \<Longrightarrow> random_calls a = c + 2 * index \<Longrightarrow>
   transform_loop rand (TargetArray ts) d index objs a =
     (None, a\<lparr>tweens := tweens a @ concat (map (object_tweens rand ts d c) [index..<index + length objs]),
              random_calls := c + 2 * (index + length objs)\<rparr>)"
proof (induction objs arbitrary: index a)
  case Nil
  then show ?case by simp
next
  case (Cons object rest)
  let ?a4 = "a\<lparr>random_calls := c + 2 * (index + 1),
                tweens := tweens a @ object_tweens rand ts d c index\<rparr>"
  have lt: "index < length ts" using Cons.prems by simp
  have step: "transform_loop rand (TargetArray ts) d index (object # rest) a =
              transform_loop rand (TargetArray ts) d (index + 1) rest ?a4"
    using lt Cons.prems(2)
    by (simp add: Math_random_def tween_start_def object_tweens_def)
  have ih: "transform_loop rand (TargetArray ts) d (index + 1) rest ?a4 =
     (None, ?a4\<lparr>tweens := tweens ?a4
                    @ concat (map (object_tweens rand ts d c) [index + 1..<index + 1 + length rest]),
                 random_calls := c + 2 * (index + 1 + length rest)\<rparr>)"
    using Cons.prems by (intro Cons.IH) simp_all
  have up: "[index..<index + length (object # rest)] = index # [index + 1..<index + 1 + length rest]"
    by (subst upt_rec) simp
  show ?case unfolding step ih up by simp
qed

lemma transform_loop_short:
  "index \<le> length ts \<Longrightarrow> length ts < index + length objs \<Longrightarrow> random_calls a = c + 2 * index \<Longrightarrow>
   transform_loop rand (TargetArray ts) d index objs a =
     (Some TypeError,
      a\<lparr>tweens := tweens a @ concat (map (object_tweens rand ts d c) [index..<length ts]),
        random_calls := c + 2 * length ts\<rparr>)"
proof (induction objs arbitrary: index a)
  case Nil
  then show ?case by simp
next
  case (Cons object rest)
  show ?case
  proof (cases "index < length ts")
    case False
    then have "index = length ts" using Cons.prems by simp
    then show ?thesis using Cons.prems by simp
  next
    case lt: True
    let ?a4 = "a\<lparr>random_calls := c + 2 * (index + 1),
                  tweens := tweens a @ object_tweens rand ts d c index\<rparr>"
    have step: "transform_loop rand (TargetArray ts) d index (object # rest) a =
                transform_loop rand (TargetArray ts) d (index + 1) rest ?a4"
      using lt Cons.prems(3)
      by (simp add: Math_random_def tween_start_def object_tweens_def)
    have ih: "transform_loop rand (TargetArray ts) d (index + 1) rest ?a4 =
       (Some TypeError,
        ?a4\<lparr>tweens := tweens ?a4 @ concat (map (object_tweens rand ts d c) [index + 1..<length ts]),
            random_calls := c + 2 * length ts\<rparr>)"
      using Cons.prems lt by (intro Cons.IH) simp_all
    have up: "[index..<length ts] = index # [index + 1..<length ts]"
      using lt by (simp add: upt_conv_Cons)
    show ?thesis unfolding step ih up by simp
  qed
qed

lemma transform_array_ok:
  assumes "length (objects a) \<le> length ts"
  shows "transform rand (TargetArray ts) d a =
     (None, a\<lparr>tweens := concat (map (object_tweens rand ts d (random_calls a)) [0..<length (objects a)])
                          @ [RenderTween (d * 2)],
              random_calls := random_calls a + 2 * length (objects a)\<rparr>)"
  using assms transform_loop_ok [of 0 "objects a" ts "TWEEN_removeAll a" "random_calls a" rand d]
  by (simp add: transform_def TWEEN_removeAll_def tween_start_def)

lemma transform_array_short:
  assumes "length ts < length (objects a)"
  shows "transform rand (TargetArray ts) d a =
     (Some TypeError,
      a\<lparr>tweens := concat (map (object_tweens rand ts d (random_calls a)) [0..<length ts]),
        random_calls := random_calls a + 2 * length ts\<rparr>)"
  using assms transform_loop_short [of 0 ts "objects a" "TWEEN_removeAll a" "random_calls a" rand d]
  by (simp add: transform_def TWEEN_removeAll_def tween_start_def)

subsection \<open>Creating objects, in closed form\<close>

lemma create_loop_fields:
  "length (objects (create_loop rand mk data a)) = length (objects a) + length data
   \<and> random_calls (create_loop rand mk data a) = random_calls a + 3 * length data
   \<and> currentLayout (create_loop rand mk data a) = currentLayout a
   \<and> tweens (create_loop rand mk data a) = tweens a
   \<and> targets (create_loop rand mk data a) = targets a"
  by (induction data arbitrary: a) (simp_all add: Math_random_def)

lemma create_loop_positions:
  assumes "\<forall>k. 0 \<le> rand k \<and> rand k < 1"
    and "\<forall>object \<in> set (objects a). in_start_cube (position object)"
  shows "\<forall>object \<in> set (objects (create_loop rand mk data a)). in_start_cube (position object)"
  using assms(2)
proof (induction data arbitrary: a)
  case Nil
  then show ?case by simp
next
  case (Cons item rest)
  let ?c = "random_calls a"
  let ?object = "\<lparr>position = Vector3 (rand ?c * 4000 - 2000) (rand (Suc ?c) * 4000 - 2000)
                                      (rand (Suc (Suc ?c)) * 4000 - 2000),
                  rotation = Vector3 0 0 0, element = mk item\<rparr>"
  let ?a3 = "a\<lparr>random_calls := Suc (Suc (Suc ?c)), objects := objects a @ [?object]\<rparr>"
  have step: "create_loop rand mk (item # rest) a = create_loop rand mk rest ?a3"
    by (simp add: Math_random_def)
  have "in_start_cube (position ?object)"
    using assms(1) by (simp add: in_start_cube_def)
  then have "\<forall>object \<in> set (objects ?a3). in_start_cube (position object)"
    using Cons.prems by simp
  then show ?case unfolding step by (rule Cons.IH)
qed

lemma createObjects_eq:
  "createObjects lookAt rand mk data a =
     (None, (calculateLayouts lookAt data (create_loop rand mk data (a\<lparr>objects := []\<rparr>)))
        \<lparr>tweens := concat (map (object_tweens rand (table_targets data) 2000
                                 (random_calls a + 3 * length data)) [0..<length data])
                    @ [RenderTween (2000 * 2)],
         random_calls := random_calls a + 3 * length data + 2 * length data\<rparr>)"
proof -
  let ?a2 = "create_loop rand mk data (a\<lparr>objects := []\<rparr>)"
  let ?a3 = "calculateLayouts lookAt data ?a2"
  have a2: "length (objects ?a2) = length data" "random_calls ?a2 = random_calls a + 3 * length data"
    using create_loop_fields [of rand mk data "a\<lparr>objects := []\<rparr>"] by simp_all
  have a3: "objects ?a3 = objects ?a2" "random_calls ?a3 = random_calls ?a2"
    using calculateLayouts_other_fields [of lookAt data ?a2] by simp_all
  have tab: "table (targets ?a3) = table_targets data"
    by (simp add: targets_calculateLayouts)
  have len: "length (objects ?a3) \<le> length (table_targets data)"
    by (simp add: a3 a2 table_targets_def)
  have run: "createObjects lookAt rand mk data a =
             transform rand (TargetArray (table_targets data)) 2000 ?a3"
    by (simp add: createObjects_def Let_def tab)
  show ?thesis
    unfolding run transform_array_ok [OF len] by (simp add: a3 a2)
qed

subsection \<open>The sample state\<close>

lemma sample_app_objects:
  "objects sample_app =
     [\<lparr>position = Vector3 (- 2000) (- 2000) (- 2000), rotation = Vector3 0 0 0, element = ''Ada''\<rparr>,
      \<lparr>position = Vector3 (- 2000) (- 2000) (- 2000), rotation = Vector3 0 0 0, element = ''Bob''\<rparr>,
      \<lparr>position = Vector3 (- 2000) (- 2000) (- 2000), rotation = Vector3 0 0 0, element = ''Cy''\<rparr>]"
  unfolding sample_app_def createObjects_eq
  by (simp add: calculateLayouts_other_fields Math_random_def no_jitter_def new_app_def)

lemma sample_app_tweens:
  "tweens sample_app =
     [PositionTween 0 (Vector3 (- 1600) 900 0) 2000, RotationTween 0 (Vector3 0 0 0) 2000,
      PositionTween 1 (Vector3 (- 1440) 900 0) 2000, RotationTween 1 (Vector3 0 0 0) 2000,
      PositionTween 2 (Vector3 (- 1280) 900 0) 2000, RotationTween 2 (Vector3 0 0 0) 2000,
      RenderTween 4000]"
proof -
  have up: "[0..<3] = [0, 1, 2]" by (simp add: upt_rec)
  show ?thesis
    unfolding sample_app_def createObjects_eq
    by (simp add: up object_tweens_def no_jitter_def table_targets_def enumerate_eq_zip
        table_object_eq)
qed

lemma sample_app_currentLayout: "currentLayout sample_app = ''table''"
  unfolding sample_app_def createObjects_eq
  using create_loop_fields [of no_jitter "\<lambda>item. item" "[''Ada'', ''Bob'', ''Cy'']"
      "new_app\<lparr>objects := []\<rparr>"]
  by (simp add: calculateLayouts_other_fields new_app_def del: create_loop.simps)

subsection \<open>Targets and objects of different lengths\<close>

text \<open>
  Claim C1, as the code has it. \<^verbatim>\<open>transform\<close> never compares the two lengths. When there
  are fewer targets than objects, it cancels the tweens in flight, starts the position
  and the rotation tween of every object that has a target, and then fails with a
  TypeError at the first object that has none, before the render tween is started.
  When there are more targets than objects the call succeeds: every object gets its two
  tweens, the render tween is started, and the targets past the last object are not
  read. In both cases the call itself leaves the objects, and so their live transforms,
  as they were.
\<close>

theorem transform_mismatched_lengths:
  assumes "length ts \<noteq> length (objects a)"
  shows "objects (snd (transform rand (TargetArray ts) duration a)) = objects a
       \<and> (length ts < length (objects a) \<longrightarrow>
            fst (transform rand (TargetArray ts) duration a) = Some TypeError
          \<and> tweens (snd (transform rand (TargetArray ts) duration a)) =
              concat (map (object_tweens rand ts duration (random_calls a)) [0..<length ts]))
       \<and> (length (objects a) < length ts \<longrightarrow>
            fst (transform rand (TargetArray ts) duration a) = None
          \<and> tweens (snd (transform rand (TargetArray ts) duration a)) =
              concat (map (object_tweens rand ts duration (random_calls a)) [0..<length (objects a)])
              @ [RenderTween (duration * 2)])"
proof (cases "length ts < length (objects a)")
  case True
  show ?thesis unfolding transform_array_short [OF True] using True by simp
next
  case False
  then have le: "length (objects a) \<le> length ts" by simp
  show ?thesis unfolding transform_array_ok [OF le] using False by simp
qed

theorem transform_mismatched_lengths_witness:
  "length (grid_targets [''x'', ''y'']) \<noteq> length (objects sample_app)
   \<and> objects (snd (transform no_jitter (TargetArray (grid_targets [''x'', ''y''])) 2000 sample_app)) =
       objects sample_app
   \<and> fst (transform no_jitter (TargetArray (grid_targets [''x'', ''y''])) 2000 sample_app) = Some TypeError
   \<and> tweens (snd (transform no_jitter (TargetArray (grid_targets [''x'', ''y''])) 2000 sample_app)) =
       [PositionTween 0 (Vector3 (- 1000) (- 400) (- 500)) 2000, RotationTween 0 (Vector3 0 0 0) 2000,
        PositionTween 1 (Vector3 (- 800) (- 400) (- 500)) 2000, RotationTween 1 (Vector3 0 0 0) 2000]
   \<and> length (grid_targets [''w'', ''x'', ''y'', ''z'']) \<noteq> length (objects sample_app)
   \<and> fst (transform no_jitter (TargetArray (grid_targets [''w'', ''x'', ''y'', ''z''])) 2000 sample_app) = None"
proof -
  have h: "length (grid_targets [''x'', ''y'']) \<noteq> length (objects sample_app)"
    by (simp add: grid_targets_def sample_app_objects)
  have lt: "length (grid_targets [''x'', ''y'']) < length (objects sample_app)"
    by (simp add: grid_targets_def sample_app_objects)
  have h': "length (grid_targets [''w'', ''x'', ''y'', ''z'']) \<noteq> length (objects sample_app)"
    by (simp add: grid_targets_def sample_app_objects)
  have gt: "length (objects sample_app) < length (grid_targets [''w'', ''x'', ''y'', ''z''])"
    by (simp add: grid_targets_def sample_app_objects)
  have up: "[0..<2] = [0, 1]" by (simp add: upt_rec)
  note t = transform_mismatched_lengths [OF h, of no_jitter 2000]
  note t' = transform_mismatched_lengths [OF h', of no_jitter 2000]
  from t have 1:
    "objects (snd (transform no_jitter (TargetArray (grid_targets [''x'', ''y''])) 2000 sample_app)) =
       objects sample_app"
    by blast
  from t lt have 2:
    "fst (transform no_jitter (TargetArray (grid_targets [''x'', ''y''])) 2000 sample_app) = Some TypeError"
    by blast
  have ev: "concat (map (object_tweens no_jitter (grid_targets [''x'', ''y'']) 2000 (random_calls sample_app))
                 [0..<length (grid_targets [''x'', ''y''])]) =
       [PositionTween 0 (Vector3 (- 1000) (- 400) (- 500)) 2000, RotationTween 0 (Vector3 0 0 0) 2000,
        PositionTween 1 (Vector3 (- 800) (- 400) (- 500)) 2000, RotationTween 1 (Vector3 0 0 0) 2000]"
    by (simp add: grid_targets_def enumerate_eq_zip up object_tweens_def no_jitter_def grid_object_eq)
  from t lt have
    "tweens (snd (transform no_jitter (TargetArray (grid_targets [''x'', ''y''])) 2000 sample_app)) =
       concat (map (object_tweens no_jitter (grid_targets [''x'', ''y'']) 2000 (random_calls sample_app))
                 [0..<length (grid_targets [''x'', ''y''])])"
    by blast
  then have 3:
    "tweens (snd (transform no_jitter (TargetArray (grid_targets [''x'', ''y''])) 2000 sample_app)) =
       [PositionTween 0 (Vector3 (- 1000) (- 400) (- 500)) 2000, RotationTween 0 (Vector3 0 0 0) 2000,
        PositionTween 1 (Vector3 (- 800) (- 400) (- 500)) 2000, RotationTween 1 (Vector3 0 0 0) 2000]"
    unfolding ev .
  from t' gt have 4:
    "fst (transform no_jitter (TargetArray (grid_targets [''w'', ''x'', ''y'', ''z''])) 2000 sample_app) = None"
    by blast
  show ?thesis using h 1 2 3 h' 4 by blast
qed

text \<open>
  Claim C1, as the specification words it, fails on the sample state with its three
  objects. Handed two targets, \<^verbatim>\<open>transform\<close> ends in a TypeError with four tweens
  started, so interpolations are scheduled; handed four targets, it does not fail.
\<close>

theorem transform_length_mismatch_counterexample:
  "length (objects sample_app) = 3
   \<and> length (grid_targets [''x'', ''y'']) = 2
   \<and> fst (transform no_jitter (TargetArray (grid_targets [''x'', ''y''])) 2000 sample_app) = Some TypeError
   \<and> tweens (snd (transform no_jitter (TargetArray (grid_targets [''x'', ''y''])) 2000 sample_app)) =
       [PositionTween 0 (Vector3 (- 1000) (- 400) (- 500)) 2000, RotationTween 0 (Vector3 0 0 0) 2000,
        PositionTween 1 (Vector3 (- 800) (- 400) (- 500)) 2000, RotationTween 1 (Vector3 0 0 0) 2000]
   \<and> length (grid_targets [''w'', ''x'', ''y'', ''z'']) = 4
   \<and> fst (transform no_jitter (TargetArray (grid_targets [''w'', ''x'', ''y'', ''z''])) 2000 sample_app) = None"
proof -
  have lt: "length (grid_targets [''x'', ''y'']) < length (objects sample_app)"
    by (simp add: grid_targets_def sample_app_objects)
  have le: "length (objects sample_app) \<le> length (grid_targets [''w'', ''x'', ''y'', ''z''])"
    by (simp add: grid_targets_def sample_app_objects)
  have up: "[0..<2] = [0, 1]" by (simp add: upt_rec)
  show ?thesis
    unfolding transform_array_short [OF lt] transform_array_ok [OF le]
    by (simp add: sample_app_objects grid_targets_def enumerate_eq_zip up object_tweens_def
        no_jitter_def grid_object_eq)
qed


section \<open>Properties of the layout selector\<close>

text \<open>
  A name that is neither a layout name nor a name inherited from \<^verbatim>\<open>Object.prototype\<close>
  is ignored; an inherited name passes the guard of \<^verbatim>\<open>changeLayout\<close>.
\<close>

lemma changeLayout_unknown_name:
  assumes "name \<notin> set layout_names" and "name \<notin> set Object_prototype_names"
  shows "changeLayout rand name a = (None, a)"
  using assms by (simp add: changeLayout_def targets_get_def layout_names_def)

lemma changeLayout_inherited_name:
  assumes "name \<in> set Object_prototype_names" and "objects a \<noteq> []"
  shows "changeLayout rand name a = (Some TypeError, a\<lparr>currentLayout := name, tweens := []\<rparr>)"
proof -
  have get: "targets_get (targets a) name = Inherited"
    using assms(1) by (auto simp: targets_get_def Object_prototype_names_def)
  obtain object rest where objs: "objects a = object # rest"
    using assms(2) by (cases "objects a") simp_all
  show ?thesis
    by (simp add: changeLayout_def get transform_def TWEEN_removeAll_def objs)
qed

text \<open>
  Claim C2 asks that \<^verbatim>\<open>changeLayout\<close> ignore every name that is not one of the five
  layout names. On the sample state, \<^verbatim>\<open>changeLayout('nonexistent')\<close> is ignored, but
  \<^verbatim>\<open>changeLayout('toString')\<close> is not: the guard \<^verbatim>\<open>this.targets[layoutName]\<close> finds the
  inherited function, so the call records \<^verbatim>\<open>'toString'\<close> as the current layout, cancels
  the tweens in flight and fails with a TypeError inside \<^verbatim>\<open>transform\<close>.
\<close>

theorem changeLayout_toString_not_ignored:
  "''toString'' \<notin> set layout_names
   \<and> fst (changeLayout no_jitter ''toString'' sample_app) = Some TypeError
   \<and> currentLayout sample_app = ''table''
   \<and> currentLayout (snd (changeLayout no_jitter ''toString'' sample_app)) = ''toString''
   \<and> tweens sample_app \<noteq> []
   \<and> tweens (snd (changeLayout no_jitter ''toString'' sample_app)) = []
   \<and> changeLayout no_jitter ''nonexistent'' sample_app = (None, sample_app)"
proof -
  have n: "''toString'' \<in> set Object_prototype_names"
    by (simp add: Object_prototype_names_def)
  have o: "objects sample_app \<noteq> []"
    by (simp add: sample_app_objects)
  have u: "''nonexistent'' \<notin> set layout_names" "''nonexistent'' \<notin> set Object_prototype_names"
    by (simp_all add: layout_names_def Object_prototype_names_def)
  have ignored: "changeLayout no_jitter ''nonexistent'' sample_app = (None, sample_app)"
    using u by (rule changeLayout_unknown_name)
  show ?thesis
    unfolding changeLayout_inherited_name [OF n o] ignored
    by (simp add: layout_names_def sample_app_currentLayout sample_app_tweens)
qed


section \<open>Properties of object creation\<close>

text \<open>
  Claim C10. With \<^verbatim>\<open>Math.random()\<close> in \<open>[0, 1)\<close>, \<^verbatim>\<open>createObjects\<close> returns without error,
  leaves one object per record, each with its x, y and z in \<open>[-2000, 2000)\<close>, and leaves
  in the tween registry exactly the transition to the table target set with base
  duration 2000: for each object its position and rotation tween to the table target,
  then the render tween of length 4000. The recorded current layout is not consulted
  and does not change.
\<close>

theorem createObjects_starts_table_transition:
  assumes "\<forall>k. 0 \<le> rand k \<and> rand k < 1"
  shows "fst (createObjects lookAt rand mk data a) = None
       \<and> length (objects (snd (createObjects lookAt rand mk data a))) = length data
       \<and> (\<forall>object \<in> set (objects (snd (createObjects lookAt rand mk data a))).
            in_start_cube (position object))
       \<and> table (targets (snd (createObjects lookAt rand mk data a))) = table_targets data
       \<and> tweens (snd (createObjects lookAt rand mk data a)) =
           concat (map (object_tweens rand (table_targets data) 2000
                          (random_calls a + 3 * length data)) [0..<length data])
           @ [RenderTween (2000 * 2)]
       \<and> currentLayout (snd (createObjects lookAt rand mk data a)) = currentLayout a"
proof -
  let ?a2 = "create_loop rand mk data (a\<lparr>objects := []\<rparr>)"
  have a2: "length (objects ?a2) = length data" "currentLayout ?a2 = currentLayout a"
    using create_loop_fields [of rand mk data "a\<lparr>objects := []\<rparr>"] by simp_all
  have cube: "\<forall>object \<in> set (objects ?a2). in_start_cube (position object)"
    using assms by (rule create_loop_positions) simp
  have other: "objects (calculateLayouts lookAt data ?a2) = objects ?a2"
    "currentLayout (calculateLayouts lookAt data ?a2) = currentLayout ?a2"
    using calculateLayouts_other_fields [of lookAt data ?a2] by simp_all
  show ?thesis
    unfolding createObjects_eq using cube
    by (simp add: other a2 targets_calculateLayouts)
qed

theorem createObjects_starts_table_transition_witness:
  "(\<forall>k. 0 \<le> no_jitter k \<and> no_jitter k < 1)
   \<and> fst (createObjects sample_lookAt no_jitter (\<lambda>item. item) [''Ada'', ''Bob'', ''Cy'']
            ((new_app :: string app)\<lparr>currentLayout := ''sphere''\<rparr>)) = None
   \<and> currentLayout (snd (createObjects sample_lookAt no_jitter (\<lambda>item. item) [''Ada'', ''Bob'', ''Cy'']
            ((new_app :: string app)\<lparr>currentLayout := ''sphere''\<rparr>))) = ''sphere''
   \<and> tweens (snd (createObjects sample_lookAt no_jitter (\<lambda>item. item) [''Ada'', ''Bob'', ''Cy'']
            ((new_app :: string app)\<lparr>currentLayout := ''sphere''\<rparr>))) =
     [PositionTween 0 (Vector3 (- 1600) 900 0) 2000, RotationTween 0 (Vector3 0 0 0) 2000,
      PositionTween 1 (Vector3 (- 1440) 900 0) 2000, RotationTween 1 (Vector3 0 0 0) 2000,
      PositionTween 2 (Vector3 (- 1280) 900 0) 2000, RotationTween 2 (Vector3 0 0 0) 2000,
      RenderTween 4000]"
proof -
  let ?R = "createObjects sample_lookAt no_jitter (\<lambda>item. item) [''Ada'', ''Bob'', ''Cy'']
              ((new_app :: string app)\<lparr>currentLayout := ''sphere''\<rparr>)"
  have h: "\<forall>k. 0 \<le> no_jitter k \<and> no_jitter k < 1"
    by (simp add: no_jitter_def)
  have up: "[0..<3] = [0, 1, 2]" by (simp add: upt_rec)
  note t = createObjects_starts_table_transition [OF h, of sample_lookAt "\<lambda>item. item"
      "[''Ada'', ''Bob'', ''Cy'']" "(new_app :: string app)\<lparr>currentLayout := ''sphere''\<rparr>"]
  from t have 1: "fst ?R = None" by blast
  from t have 2: "currentLayout (snd ?R) = ''sphere''" by simp
  have ev: "concat (map (object_tweens no_jitter (table_targets [''Ada'', ''Bob'', ''Cy'']) 2000
                 (random_calls ((new_app :: string app)\<lparr>currentLayout := ''sphere''\<rparr>)
                    + 3 * length [''Ada'', ''Bob'', ''Cy'']))
               [0..<length [''Ada'', ''Bob'', ''Cy'']]) @ [RenderTween (2000 * 2)] =
     [PositionTween 0 (Vector3 (- 1600) 900 0) 2000, RotationTween 0 (Vector3 0 0 0) 2000,
      PositionTween 1 (Vector3 (- 1440) 900 0) 2000, RotationTween 1 (Vector3 0 0 0) 2000,
      PositionTween 2 (Vector3 (- 1280) 900 0) 2000, RotationTween 2 (Vector3 0 0 0) 2000,
      RenderTween 4000]"
    by (simp add: up object_tweens_def no_jitter_def table_targets_def
        enumerate_eq_zip table_object_eq new_app_def)
  from t have "tweens (snd ?R) =
      concat (map (object_tweens no_jitter (table_targets [''Ada'', ''Bob'', ''Cy'']) 2000
                 (random_calls ((new_app :: string app)\<lparr>currentLayout := ''sphere''\<rparr>)
                    + 3 * length [''Ada'', ''Bob'', ''Cy'']))
               [0..<length [''Ada'', ''Bob'', ''Cy'']]) @ [RenderTween (2000 * 2)]"
    by blast
  then have 3: "tweens (snd ?R) =
     [PositionTween 0 (Vector3 (- 1600) 900 0) 2000, RotationTween 0 (Vector3 0 0 0) 2000,
      PositionTween 1 (Vector3 (- 1440) 900 0) 2000, RotationTween 1 (Vector3 0 0 0) 2000,
      PositionTween 2 (Vector3 (- 1280) 900 0) 2000, RotationTween 2 (Vector3 0 0 0) 2000,
      RenderTween 4000]"
    unfolding ev .
  show ?thesis using h 1 2 3 by blast
qed

end
